theory Spec2Isabelle
  imports Complex_Main "HOL-Library.Char_ord" "HOL-Library.List_Lexorder"
    "HOL-Library.Product_Lexorder" "HOL-Library.Multiset"
begin

section \<open>Python values, dictionaries and exceptions\<close>

text \<open>
  The module \<^verbatim>\<open>dsp/modules/gpt4vision.py\<close> passes keyword arguments, request payloads
  and responses around as Python dictionaries. A Python value is one of the values
  \<^verbatim>\<open>json\<close> can carry. A \<^verbatim>\<open>dict\<close> keeps its keys in insertion order, so it is an
  association list with distinct keys.

  A \<^verbatim>\<open>float\<close> is a finite double, given by the rational number it is exactly (every
  finite double is a rational, not every rational is a double), or one of
  \<^verbatim>\<open>-0.0\<close>, \<^verbatim>\<open>inf\<close>, \<^verbatim>\<open>-inf\<close> and \<^verbatim>\<open>nan\<close>; \<open>Finite 0\<close> is \<^verbatim>\<open>0.0\<close>. How
  Python writes a float and how it rounds a sum or a quotient is not computed here:
  these are parameters of the environment below.
\<close>

datatype pyfloat = Finite rat | NegZero | PosInf | NegInf | NaN

datatype pyval =
    PNone
  | PBool bool
  | PInt int
  | PFloat pyfloat
  | PStr string
  | PList "pyval list"
  | PDict "(string \<times> pyval) list"

type_synonym dict = "(string \<times> pyval) list"

datatype error =
    RateLimitError
  | AssertionError
  | KeyError string
  | TypeError
  | ZeroDivisionError
  | OtherError string

text \<open>\<^verbatim>\<open>d[k] = v\<close>: an existing key keeps its position, a new key goes to the end.\<close>

definition dict_set :: "dict \<Rightarrow> string \<Rightarrow> pyval \<Rightarrow> dict" where
  "dict_set d k v =
     (if k \<in> fst ` set d then map (\<lambda>(a, b). if a = k then (a, v) else (a, b)) d
      else d @ [(k, v)])"

text \<open>\<^verbatim>\<open>{**d, **e}\<close>: the items of \<open>e\<close> are stored into a copy of \<open>d\<close>, one by one.\<close>

definition dict_merge :: "dict \<Rightarrow> dict \<Rightarrow> dict" where
  "dict_merge d e = foldl (\<lambda>acc (k, v). dict_set acc k v) d e"

text \<open>\<^verbatim>\<open>if k in d: del d[k]\<close>\<close>

definition dict_del :: "dict \<Rightarrow> string \<Rightarrow> dict" where
  "dict_del d k = filter (\<lambda>(a, b). a \<noteq> k) d"

text \<open>\<^verbatim>\<open>v[k]\<close> with a string key: \<^verbatim>\<open>KeyError\<close> on a dictionary without the key,
  \<^verbatim>\<open>TypeError\<close> on a value that is no dictionary.\<close>

definition subscript :: "pyval \<Rightarrow> string \<Rightarrow> error + pyval" where
  "subscript v k =
     (case v of
        PDict d \<Rightarrow> (case map_of d k of None \<Rightarrow> Inl (KeyError k) | Some x \<Rightarrow> Inr x)
      | _ \<Rightarrow> Inl TypeError)"

section \<open>\<^verbatim>\<open>json.dumps\<close>\<close>

text \<open>
  \<^verbatim>\<open>json.dumps\<close> with its default arguments: items in the dictionary's own order
  (\<^verbatim>\<open>sort_keys=False\<close>), separators \<^verbatim>\<open>", "\<close> and \<^verbatim>\<open>": "\<close>, and
  \<^verbatim>\<open>ensure_ascii=True\<close>. Characters are code points below 256.
\<close>

definition hex_digit :: "nat \<Rightarrow> char" where
  "hex_digit n = (if n < 10 then char_of (48 + n) else char_of (87 + n))"

definition escape_char :: "char \<Rightarrow> string" where
  "escape_char c =
     (if c = CHR 0x22 then [CHR 0x5C, CHR 0x22]
      else if c = CHR 0x5C then [CHR 0x5C, CHR 0x5C]
      else if c = CHR 0x0A then [CHR 0x5C, CHR ''n'']
      else if c = CHR 0x0D then [CHR 0x5C, CHR ''r'']
      else if c = CHR 0x09 then [CHR 0x5C, CHR ''t'']
      else if c = CHR 0x08 then [CHR 0x5C, CHR ''b'']
      else if c = CHR 0x0C then [CHR 0x5C, CHR ''f'']
      else if (32::nat) \<le> of_char c \<and> (of_char c :: nat) \<le> 126 then [c]
      else [CHR 0x5C, CHR ''u'', CHR ''0'', CHR ''0'',
            hex_digit ((of_char c :: nat) div 16), hex_digit ((of_char c :: nat) mod 16)])"

definition json_str :: "string \<Rightarrow> string" where
  "json_str s = [CHR 0x22] @ concat (map escape_char s) @ [CHR 0x22]"

fun digits :: "nat \<Rightarrow> nat \<Rightarrow> string" where
  "digits 0 n = []"
| "digits (Suc fuel) n =
     (if n < 10 then [char_of (48 + n)]
      else digits fuel (n div 10) @ [char_of (48 + n mod 10)])"

text \<open>The decimal digits of a natural number; \<open>n\<close> has at most \<open>Suc n\<close> digits.\<close>

definition str_nat :: "nat \<Rightarrow> string" where
  "str_nat n = digits (Suc n) n"

definition str_int :: "int \<Rightarrow> string" where
  "str_int i = (if i < 0 then CHR ''-'' # str_nat (nat (- i)) else str_nat (nat i))"

text \<open>
  \<^verbatim>\<open>json.dumps\<close> writes a finite float as \<^verbatim>\<open>float.__repr__\<close> does, here the parameter
  \<open>fr\<close>, and the other floats by name (\<^verbatim>\<open>allow_nan=True\<close>).
\<close>

definition json_float :: "(rat \<Rightarrow> string) \<Rightarrow> pyfloat \<Rightarrow> string" where
  "json_float fr f =
     (case f of
        Finite q \<Rightarrow> fr q
      | NegZero \<Rightarrow> ''-0.0''
      | PosInf \<Rightarrow> ''Infinity''
      | NegInf \<Rightarrow> ''-Infinity''
      | NaN \<Rightarrow> ''NaN'')"

fun join :: "string \<Rightarrow> string list \<Rightarrow> string" where
  "join sep [] = []"
| "join sep [x] = x"
| "join sep (x # y # ys) = x @ sep @ join sep (y # ys)"

fun json_dumps :: "(rat \<Rightarrow> string) \<Rightarrow> pyval \<Rightarrow> string" where
  "json_dumps fr PNone = ''null''"
| "json_dumps fr (PBool b) = (if b then ''true'' else ''false'')"
| "json_dumps fr (PInt i) = str_int i"
| "json_dumps fr (PFloat f) = json_float fr f"
| "json_dumps fr (PStr s) = json_str s"
| "json_dumps fr (PList xs) = ''['' @ join '', '' (map (json_dumps fr) xs) @ '']''"
| "json_dumps fr (PDict kvs) =
     ''{'' @ join '', ''
              (map (\<lambda>kv. json_str (fst kv) @ '': '' @ json_dumps fr (snd kv)) kvs) @ ''}''"

section \<open>The client instance, the process state and the environment\<close>

text \<open>
  The attributes \<^verbatim>\<open>GPT4Vision.__init__\<close> sets on \<^verbatim>\<open>self\<close>. The settings it writes
  into the \<^verbatim>\<open>openai\<close> module (\<^verbatim>\<open>api_type\<close>, \<^verbatim>\<open>api_key\<close>, \<^verbatim>\<open>base_url\<close>) are read
  by the remote call only, which is a parameter here.
\<close>

record gpt4vision =
  provider :: string
  system_prompt :: "string option"
  model_type :: string
  kwargs :: dict
  history :: "dict list"

definition default_kwargs :: dict where
  "default_kwargs =
     [(''temperature'', PFloat (Finite 0)), (''max_tokens'', PInt 150), (''top_p'', PInt 1),
      (''frequency_penalty'', PInt 0), (''presence_penalty'', PInt 0), (''n'', PInt 1)]"

text \<open>\<^verbatim>\<open>x if x else default\<close> on an optional string: \<^verbatim>\<open>None\<close> and \<^verbatim>\<open>""\<close> are falsy.\<close>

definition truthy_str :: "string option \<Rightarrow> bool" where
  "truthy_str x = (case x of None \<Rightarrow> False | Some s \<Rightarrow> s \<noteq> [])"

definition init :: "string \<Rightarrow> string option \<Rightarrow> string option \<Rightarrow> dict \<Rightarrow> gpt4vision" where
  "init model mtype sprompt kw =
     \<lparr> provider = ''openai'',
       system_prompt = sprompt,
       model_type = (if truthy_str mtype then the mtype else ''vision''),
       kwargs = dict_set (dict_merge default_kwargs kw) ''model'' (PStr model),
       history = [] \<rparr>"

text \<open>
  The image argument of a request: a string (path or base64 text), an array, or an
  \<^verbatim>\<open>Image\<close> object, which exposes its \<^verbatim>\<open>image_url\<close>.
\<close>

datatype image_input = ImgStr string | ImgArray "nat list" | ImgObj string

text \<open>A Python number: an \<^verbatim>\<open>int\<close> (\<^verbatim>\<open>bool\<close> is a subclass of \<^verbatim>\<open>int\<close>) or a
  \<^verbatim>\<open>float\<close>.\<close>

datatype number = NInt int | NFloat pyfloat

text \<open>
  What the module takes from outside:
  \<^item> \<open>api n s\<close>: the outcome of \<^verbatim>\<open>openai.chat.completions.create(**json.loads(s))\<close>,
    read through \<^verbatim>\<open>model_dump()\<close>, when \<open>n\<close> network calls were made before it;
  \<^item> \<open>init_from\<close>: \<^verbatim>\<open>Image.init_from\<close> of \<^verbatim>\<open>dspy.primitives.vision\<close>, giving the
    \<^verbatim>\<open>image_url\<close> of the resulting \<^verbatim>\<open>Image\<close> or raising;
  \<^item> \<open>cache_turn_on\<close>: the flag of that name imported from
    \<^verbatim>\<open>dsp.modules.cache_utils\<close>;
  \<^item> \<open>persistent_cache_enabled\<close>, \<open>notebook_cache_enabled\<close>: whether
    \<^verbatim>\<open>CacheMemory\<close> and \<^verbatim>\<open>NotebookCacheMemory\<close> store anything;
  \<^item> \<open>budget_spent t\<close>: whether, at the start of attempt \<open>t\<close> of the retry decorator,
    the elapsed wall-clock time had reached \<^verbatim>\<open>max_time=10\<close>. The clock is outside the
    embedding;
  \<^item> \<open>float_repr q\<close>: \<^verbatim>\<open>float.__repr__\<close> of the finite double \<open>q\<close>;
  \<^item> \<open>float_sum ns\<close>: the builtin \<^verbatim>\<open>sum\<close> on a list of numbers of which one at least
    is a float, with the rounding of the interpreter, or the exception it raises;
  \<^item> \<open>true_div x n\<close>: the quotient \<^verbatim>\<open>x / n\<close> of a number and an integer other than
    zero, a float rounded as the interpreter rounds it, or the exception it raises.
\<close>


record env =
  api :: "nat \<Rightarrow> string \<Rightarrow> error + dict"
  init_from :: "image_input \<Rightarrow> error + string"
  cache_turn_on :: bool
  persistent_cache_enabled :: bool
  notebook_cache_enabled :: bool
  budget_spent :: "nat \<Rightarrow> bool"
  float_repr :: "rat \<Rightarrow> string"
  float_sum :: "number list \<Rightarrow> error + pyfloat"
  true_div :: "number \<Rightarrow> int \<Rightarrow> error + pyfloat"

text \<open>
  The state of the process: the client instances by object identity, the three cache
  stores, and the requests sent to the remote API so far, oldest first.
\<close>

record world =
  instances :: "nat \<Rightarrow> gpt4vision"
  memo :: "string \<rightharpoonup> dict"
  notebook :: "string \<rightharpoonup> dict"
  persistent :: "string \<rightharpoonup> dict"
  calls :: "string list"

section \<open>The cache tiers\<close>

text \<open>
  Modelled from the spec: the decorator \<^verbatim>\<open>cache\<close> of \<^verbatim>\<open>CacheMemory\<close> and of
  \<^verbatim>\<open>NotebookCacheMemory\<close>; \<^verbatim>\<open>dsp/modules/cache_utils.py\<close> is not among the
  sources. The spec describes a key-value store keyed by the serialized request, with
  get and put, no eviction, bypassed entirely when disabled; a call that raises stores
  nothing. \<^verbatim>\<open>functools.lru_cache\<close> behaves the same way on the single keyword argument
  \<^verbatim>\<open>stringify_request\<close>: unbounded for \<^verbatim>\<open>maxsize=None\<close>, no caching at all for
  \<^verbatim>\<open>maxsize=0\<close>.
\<close>

definition cache_layer ::
  "bool \<Rightarrow> (world \<Rightarrow> string \<rightharpoonup> dict) \<Rightarrow> (string \<Rightarrow> dict \<Rightarrow> world \<Rightarrow> world) \<Rightarrow>
   (string \<Rightarrow> world \<Rightarrow> (error + dict) \<times> world) \<Rightarrow> string \<Rightarrow> world \<Rightarrow> (error + dict) \<times> world" where
  "cache_layer enabled get put f s w =
     (if \<not> enabled then f s w
      else case get w s of
             Some r \<Rightarrow> (Inr r, w)
           | None \<Rightarrow> (case f s w of
                        (Inl e, w1) \<Rightarrow> (Inl e, w1)
                      | (Inr r, w1) \<Rightarrow> (Inr r, put s r w1)))"

definition put_memo :: "string \<Rightarrow> dict \<Rightarrow> world \<Rightarrow> world" where
  "put_memo s r w = w\<lparr>memo := (memo w)(s \<mapsto> r)\<rparr>"

definition put_notebook :: "string \<Rightarrow> dict \<Rightarrow> world \<Rightarrow> world" where
  "put_notebook s r w = w\<lparr>notebook := (notebook w)(s \<mapsto> r)\<rparr>"

definition put_persistent :: "string \<Rightarrow> dict \<Rightarrow> world \<Rightarrow> world" where
  "put_persistent s r w = w\<lparr>persistent := (persistent w)(s \<mapsto> r)\<rparr>"

text \<open>The network call: its request is recorded, its outcome comes from the environment.\<close>

definition openai_chat_completions_create ::
  "env \<Rightarrow> string \<Rightarrow> world \<Rightarrow> (error + dict) \<times> world" where
  "openai_chat_completions_create E s w =
     (api E (length (calls w)) s, w\<lparr>calls := calls w @ [s]\<rparr>)"

text \<open>
  The module calls the cached functions with the one keyword argument
  \<^verbatim>\<open>stringify_request\<close>, so the branch \<^verbatim>\<open>"stringify_request" in kwargs\<close> is taken.
\<close>

definition cached_gpt4vision_chat_request ::
  "env \<Rightarrow> string \<Rightarrow> world \<Rightarrow> (error + dict) \<times> world" where
  "cached_gpt4vision_chat_request E =
     cache_layer (persistent_cache_enabled E) persistent put_persistent
       (openai_chat_completions_create E)"

definition cached_gpt4vision_chat_request_wrapped ::
  "env \<Rightarrow> string \<Rightarrow> world \<Rightarrow> (error + dict) \<times> world" where
  "cached_gpt4vision_chat_request_wrapped E =
     cache_layer (cache_turn_on E) memo put_memo
       (cache_layer (notebook_cache_enabled E) notebook put_notebook
          (cached_gpt4vision_chat_request E))"

definition chat_request :: "env \<Rightarrow> string \<Rightarrow> world \<Rightarrow> (error + dict) \<times> world" where
  "chat_request E s w = cached_gpt4vision_chat_request_wrapped E s w"

section \<open>\<^verbatim>\<open>basic_request\<close>\<close>

text \<open>Lines 103 to 121: the message list, from the prompt, the resolved image and the
  system prompt.\<close>

definition messages :: "gpt4vision \<Rightarrow> string \<Rightarrow> string option \<Rightarrow> pyval list" where
  "messages inst prompt url =
     (let content =
            (case url of
               Some u \<Rightarrow>
                 PList [PDict [(''type'', PStr ''text''), (''text'', PStr prompt)],
                        PDict [(''type'', PStr ''image_url''),
                               (''image_url'', PDict [(''url'', PStr u)])]]
             | None \<Rightarrow> PStr prompt);
          msgs = [PDict [(''role'', PStr ''user''), (''content'', content)]]
      in if truthy_str (system_prompt inst)
         then PDict [(''role'', PStr ''system''), (''content'', PStr (the (system_prompt inst)))] # msgs
         else msgs)"

text \<open>Lines 101, 122 and 124: the merged options with the messages, serialized.\<close>

definition merged_kwargs :: "gpt4vision \<Rightarrow> string \<Rightarrow> string option \<Rightarrow> dict \<Rightarrow> dict" where
  "merged_kwargs inst prompt url kw =
     dict_set (dict_merge (kwargs inst) kw) ''messages'' (PList (messages inst prompt url))"

definition stringify_request ::
  "env \<Rightarrow> gpt4vision \<Rightarrow> string \<Rightarrow> string option \<Rightarrow> dict \<Rightarrow> string" where
  "stringify_request E inst prompt url kw =
     json_dumps (float_repr E) (PDict (merged_kwargs inst prompt url kw))"

text \<open>\<^verbatim>\<open>image = Image.init_from(image)\<close> when an image is given (line 104).\<close>

definition resolve_image :: "env \<Rightarrow> image_input option \<Rightarrow> error + string option" where
  "resolve_image E img =
     (case img of
        None \<Rightarrow> Inr None
      | Some i \<Rightarrow> (case init_from E i of Inl e \<Rightarrow> Inl e | Inr u \<Rightarrow> Inr (Some u)))"

text \<open>
  Line 133: \<^verbatim>\<open>Image.init_from(image).image_url if image else None\<close>. Here \<^verbatim>\<open>image\<close> is
  \<^verbatim>\<open>None\<close> or the \<^verbatim>\<open>Image\<close> object of line 104, and an object is truthy.
\<close>

definition history_image :: "env \<Rightarrow> string option \<Rightarrow> error + pyval" where
  "history_image E url =
     (case url of
        None \<Rightarrow> Inr PNone
      | Some u \<Rightarrow> (case init_from E (ImgObj u) of Inl e \<Rightarrow> Inl e | Inr u' \<Rightarrow> Inr (PStr u')))"

definition append_history :: "nat \<Rightarrow> dict \<Rightarrow> world \<Rightarrow> world" where
  "append_history self entry w =
     w\<lparr>instances := (instances w)
          (self := (instances w self)\<lparr>history := history (instances w self) @ [entry]\<rparr>)\<rparr>"

definition basic_request ::
  "env \<Rightarrow> nat \<Rightarrow> string \<Rightarrow> image_input option \<Rightarrow> dict \<Rightarrow> world \<Rightarrow> (error + dict) \<times> world" where
  "basic_request E self prompt img kw w =
     (let inst = instances w self; raw_kwargs = kw
      in case resolve_image E img of
           Inl e \<Rightarrow> (Inl e, w)
         | Inr url \<Rightarrow>
             (let s = stringify_request E inst prompt url kw;
                  kw' = [(''stringify_request'', PStr s)]
              in case chat_request E s w of
                   (Inl e, w1) \<Rightarrow> (Inl e, w1)
                 | (Inr response, w1) \<Rightarrow>
                     (case history_image E url of
                        Inl e \<Rightarrow> (Inl e, w1)
                      | Inr himg \<Rightarrow>
                          (Inr response,
                           append_history self
                             [(''prompt'', PStr prompt), (''image'', himg),
                              (''response'', PDict response), (''kwargs'', PDict kw'),
                              (''raw_kwargs'', PDict raw_kwargs)] w1))))"

section \<open>\<^verbatim>\<open>request\<close>: the retry decorator\<close>

definition ERRORS :: "error set" where
  "ERRORS = {RateLimitError}"

text \<open>The function under the decorator (lines 150 to 153).\<close>

definition request_body ::
  "env \<Rightarrow> nat \<Rightarrow> string \<Rightarrow> image_input option \<Rightarrow> dict \<Rightarrow> world \<Rightarrow> (error + dict) \<times> world" where
  "request_body E self prompt img kw w =
     basic_request E self prompt img (dict_del kw ''model_type'') w"

text \<open>
  \<^verbatim>\<open>backoff.on_exception(backoff.expo, ERRORS, max_time=10)\<close>: the call is repeated
  while it raises an exception of \<^verbatim>\<open>ERRORS\<close> and the time budget is not spent; any
  other exception, and the last one of \<^verbatim>\<open>ERRORS\<close>, is raised to the caller; a result
  is returned at once. The number of attempts is not bounded, so the loop is partial.
\<close>

partial_function (option) retry ::
  "env \<Rightarrow> nat \<Rightarrow> nat \<Rightarrow> string \<Rightarrow> image_input option \<Rightarrow> dict \<Rightarrow> world \<Rightarrow>
   ((error + dict) \<times> world) option" where
  "retry E self tries prompt img kw w =
     (case request_body E self prompt img kw w of
        (Inr response, w1) \<Rightarrow> Some (Inr response, w1)
      | (Inl e, w1) \<Rightarrow>
          if e \<in> ERRORS
          then (if budget_spent E tries then Some (Inl e, w1)
                else retry E self (Suc tries) prompt img kw w1)
          else Some (Inl e, w1))"

declare retry.simps [code]

definition request ::
  "env \<Rightarrow> nat \<Rightarrow> string \<Rightarrow> image_input option \<Rightarrow> dict \<Rightarrow> world \<Rightarrow>
   ((error + dict) \<times> world) option" where
  "request E self prompt img kw w = retry E self 1 prompt img kw w"

section \<open>\<^verbatim>\<open>__call__\<close>: from the response to the completions\<close>

text \<open>
  The choices, the tokens and the log-probabilities of a response are lists; another
  value in their place is ill-typed (Python's iteration over a string or over the keys
  of a dictionary is not modelled).
\<close>

definition as_list :: "pyval \<Rightarrow> error + pyval list" where
  "as_list v = (case v of PList xs \<Rightarrow> Inr xs | _ \<Rightarrow> Inl TypeError)"

text \<open>A list comprehension whose element expression may raise: the first exception wins.\<close>

fun traverse :: "('a \<Rightarrow> error + 'b) \<Rightarrow> 'a list \<Rightarrow> error + 'b list" where
  "traverse f [] = Inr []"
| "traverse f (x # xs) =
     (case f x of
        Inl e \<Rightarrow> Inl e
      | Inr y \<Rightarrow> (case traverse f xs of Inl e \<Rightarrow> Inl e | Inr ys \<Rightarrow> Inr (y # ys)))"

definition get_choice_text :: "gpt4vision \<Rightarrow> pyval \<Rightarrow> error + pyval" where
  "get_choice_text inst choice =
     (if model_type inst = ''chat''
      then (case subscript choice ''message'' of
              Inl e \<Rightarrow> Inl e
            | Inr m \<Rightarrow> subscript m ''content'')
      else subscript choice ''text'')"

text \<open>Line 190: \<^verbatim>\<open>[c for c in choices if c["finish_reason"] != "length"]\<close>\<close>

fun completed_choices :: "pyval list \<Rightarrow> error + pyval list" where
  "completed_choices [] = Inr []"
| "completed_choices (c # cs) =
     (case subscript c ''finish_reason'' of
        Inl e \<Rightarrow> Inl e
      | Inr fr \<Rightarrow>
          (case completed_choices cs of
             Inl e \<Rightarrow> Inl e
           | Inr rest \<Rightarrow> Inr (if fr \<noteq> PStr ''length'' then c # rest else rest)))"

text \<open>Lines 188 to 193: the choices the completions are taken from.\<close>

definition select_choices :: "bool \<Rightarrow> dict \<Rightarrow> error + pyval list" where
  "select_choices only_completed response =
     (case map_of response ''choices'' of
        None \<Rightarrow> Inl (KeyError ''choices'')
      | Some ch \<Rightarrow>
          (case as_list ch of
             Inl e \<Rightarrow> Inl e
           | Inr choices \<Rightarrow>
               (case completed_choices choices of
                  Inl e \<Rightarrow> Inl e
                | Inr completed \<Rightarrow>
                    Inr (if only_completed \<and> length completed \<noteq> 0 then completed
                         else choices))))"

definition num :: "pyval \<Rightarrow> error + number" where
  "num v =
     (case v of
        PInt i \<Rightarrow> Inr (NInt i)
      | PFloat f \<Rightarrow> Inr (NFloat f)
      | PBool b \<Rightarrow> Inr (NInt (if b then 1 else 0))
      | _ \<Rightarrow> Inl TypeError)"

text \<open>
  Python compares numbers exactly, an \<^verbatim>\<open>int\<close> with a \<^verbatim>\<open>float\<close> too, and every
  comparison with \<^verbatim>\<open>nan\<close> is false. A number that is not \<^verbatim>\<open>nan\<close> has a place on the
  line of the rationals between \<^verbatim>\<open>-inf\<close> and \<^verbatim>\<open>inf\<close>.
\<close>

fun float_key :: "pyfloat \<Rightarrow> (int \<times> rat) option" where
  "float_key (Finite q) = Some (0, q)"
| "float_key NegZero = Some (0, 0)"
| "float_key PosInf = Some (1, 0)"
| "float_key NegInf = Some (- 1, 0)"
| "float_key NaN = None"

fun number_key :: "number \<Rightarrow> (int \<times> rat) option" where
  "number_key (NInt i) = Some (0, of_int i)"
| "number_key (NFloat f) = float_key f"

definition num_lt :: "number \<Rightarrow> number \<Rightarrow> bool" where
  "num_lt a b =
     (case number_key a of
        None \<Rightarrow> False
      | Some x \<Rightarrow> (case number_key b of None \<Rightarrow> False | Some y \<Rightarrow> x < y))"

definition num_eq :: "number \<Rightarrow> number \<Rightarrow> bool" where
  "num_eq a b =
     (case number_key a of
        None \<Rightarrow> False
      | Some x \<Rightarrow> (case number_key b of None \<Rightarrow> False | Some y \<Rightarrow> x = y))"

text \<open>
  The builtin \<^verbatim>\<open>sum\<close> on a list of numbers: exact on integers, the interpreter's
  floating-point sum as soon as a float is among them.
\<close>

definition is_int :: "number \<Rightarrow> bool" where
  "is_int n = (case n of NInt i \<Rightarrow> True | NFloat f \<Rightarrow> False)"

definition int_of :: "number \<Rightarrow> int" where
  "int_of n = (case n of NInt i \<Rightarrow> i | NFloat f \<Rightarrow> 0)"

definition py_sum :: "env \<Rightarrow> number list \<Rightarrow> error + number" where
  "py_sum E ns =
     (if list_all is_int ns then Inr (NInt (sum_list (map int_of ns)))
      else (case float_sum E ns of Inl e \<Rightarrow> Inl e | Inr f \<Rightarrow> Inr (NFloat f)))"

text \<open>
  Line 209: \<^verbatim>\<open>sum(logprobs) / len(logprobs)\<close>. The sum raises \<^verbatim>\<open>TypeError\<close> on an
  element that is no number; the quotient raises \<^verbatim>\<open>ZeroDivisionError\<close> on an empty
  list.
\<close>

definition avglog :: "env \<Rightarrow> pyval list \<Rightarrow> error + pyfloat" where
  "avglog E logprobs =
     (case traverse num logprobs of
        Inl e \<Rightarrow> Inl e
      | Inr ns \<Rightarrow>
          (case py_sum E ns of
             Inl e \<Rightarrow> Inl e
           | Inr s \<Rightarrow>
               if length logprobs = 0 then Inl ZeroDivisionError
               else true_div E s (int (length logprobs))))"

text \<open>\<^verbatim>\<open>tokens.index("<|endoftext|>")\<close> on a list that contains the token.\<close>

fun index_of :: "pyval \<Rightarrow> pyval list \<Rightarrow> nat" where
  "index_of x [] = 0"
| "index_of x (y # ys) = (if y = x then 0 else Suc (index_of x ys))"

definition endoftext :: pyval where
  "endoftext = PStr ''<|endoftext|>''"

text \<open>Lines 200 to 210: the body of the scoring loop, for one choice.\<close>

definition score_choice :: "env \<Rightarrow> gpt4vision \<Rightarrow> pyval \<Rightarrow> error + (pyfloat \<times> pyval)" where
  "score_choice E inst c =
     (case subscript c ''logprobs'' of
        Inl e \<Rightarrow> Inl e
      | Inr lp \<Rightarrow>
     (case subscript lp ''tokens'' of
        Inl e \<Rightarrow> Inl e
      | Inr tk \<Rightarrow>
     (case subscript lp ''token_logprobs'' of
        Inl e \<Rightarrow> Inl e
      | Inr tlp \<Rightarrow>
     (case as_list tk of
        Inl e \<Rightarrow> Inl e
      | Inr tokens \<Rightarrow>
     (case as_list tlp of
        Inl e \<Rightarrow> Inl e
      | Inr logprobs \<Rightarrow>
     (case avglog E (if endoftext \<in> set tokens
                     then take (index_of endoftext tokens + 1) logprobs
                     else logprobs) of
        Inl e \<Rightarrow> Inl e
      | Inr a \<Rightarrow>
     (case get_choice_text inst c of
        Inl e \<Rightarrow> Inl e
      | Inr t \<Rightarrow> Inr (a, t))))))))"

text \<open>
  Python's \<^verbatim>\<open>==\<close> and \<^verbatim>\<open><\<close> on the values of a response. Numbers compare by
  value, strings by code points, lists item by item; two dictionaries are equal when
  they map the same keys to equal values; \<^verbatim>\<open><\<close> raises \<^verbatim>\<open>TypeError\<close> between values
  it cannot order (\<^verbatim>\<open>None\<close>, dictionaries, values of different kinds). Object identity
  is not modelled.
\<close>

fun py_eq :: "pyval \<Rightarrow> pyval \<Rightarrow> bool"
  and lists_eq :: "pyval list \<Rightarrow> pyval list \<Rightarrow> bool"
  and items_in :: "(string \<times> pyval) list \<Rightarrow> (string \<times> pyval) list \<Rightarrow> bool" where
  "py_eq PNone PNone = True"
| "py_eq (PStr s) (PStr t) = (s = t)"
| "py_eq (PList xs) (PList ys) = lists_eq xs ys"
| "py_eq (PDict d) (PDict e) = (length d = length e \<and> items_in d e)"
| "py_eq a b =
     (case num a of
        Inl e \<Rightarrow> False
      | Inr x \<Rightarrow> (case num b of Inl e \<Rightarrow> False | Inr y \<Rightarrow> num_eq x y))"
| "lists_eq [] [] = True"
| "lists_eq (x # xs) (y # ys) = (py_eq x y \<and> lists_eq xs ys)"
| "lists_eq xs ys = False"
| "items_in [] e = True"
| "items_in (kv # d) e =
     ((case map_of e (fst kv) of None \<Rightarrow> False | Some v \<Rightarrow> py_eq (snd kv) v) \<and> items_in d e)"

fun py_lt :: "pyval \<Rightarrow> pyval \<Rightarrow> error + bool"
  and lists_lt :: "pyval list \<Rightarrow> pyval list \<Rightarrow> error + bool" where
  "py_lt (PStr s) (PStr t) = Inr (s < t)"
| "py_lt (PList xs) (PList ys) = lists_lt xs ys"
| "py_lt a b =
     (case num a of
        Inl e \<Rightarrow> Inl TypeError
      | Inr x \<Rightarrow> (case num b of Inl e \<Rightarrow> Inl TypeError | Inr y \<Rightarrow> Inr (num_lt x y)))"
| "lists_lt [] [] = Inr False"
| "lists_lt [] (y # ys) = Inr True"
| "lists_lt (x # xs) [] = Inr False"
| "lists_lt (x # xs) (y # ys) = (if py_eq x y then lists_lt xs ys else py_lt x y)"

text \<open>
  \<^verbatim>\<open><\<close> on two pairs of score and text: the scores decide unless they are equal, then
  the texts decide unless they are equal too.
\<close>

definition tuple_lt :: "pyfloat \<times> pyval \<Rightarrow> pyfloat \<times> pyval \<Rightarrow> error + bool" where
  "tuple_lt p q =
     (if \<not> num_eq (NFloat (fst p)) (NFloat (fst q))
      then Inr (num_lt (NFloat (fst p)) (NFloat (fst q)))
      else if py_eq (snd p) (snd q) then Inr False
      else py_lt (snd p) (snd q))"

text \<open>
  Line 212: \<^verbatim>\<open>sorted(scored_completions, reverse=True)\<close> arranges the pairs from the
  greatest to the least and leaves pairs that compare equal in the order they came in.
  It is modelled by a stable insertion. The interpreter's sort may compare other pairs
  than the insertion does; where no score is \<^verbatim>\<open>nan\<close> and no comparison raises, the
  arrangement does not depend on which pairs are compared.
\<close>

fun insert_desc ::
  "pyfloat \<times> pyval \<Rightarrow> (pyfloat \<times> pyval) list \<Rightarrow> error + (pyfloat \<times> pyval) list" where
  "insert_desc p [] = Inr [p]"
| "insert_desc p (q # qs) =
     (case tuple_lt p q of
        Inl e \<Rightarrow> Inl e
      | Inr True \<Rightarrow> (case insert_desc p qs of Inl e \<Rightarrow> Inl e | Inr r \<Rightarrow> Inr (q # r))
      | Inr False \<Rightarrow> Inr (p # q # qs))"

fun sorted_reverse :: "(pyfloat \<times> pyval) list \<Rightarrow> error + (pyfloat \<times> pyval) list" where
  "sorted_reverse [] = Inr []"
| "sorted_reverse (p # ps) =
     (case sorted_reverse ps of Inl e \<Rightarrow> Inl e | Inr r \<Rightarrow> insert_desc p r)"

text \<open>Lines 212 and 213: the texts of the sorted pairs.\<close>

definition sorted_completions :: "(pyfloat \<times> pyval) list \<Rightarrow> error + pyval list" where
  "sorted_completions scored =
     (case sorted_reverse scored of Inl e \<Rightarrow> Inl e | Inr ps \<Rightarrow> Inr (map snd ps))"

text \<open>\<^verbatim>\<open>kwargs.get("n", 1) > 1\<close>\<close>

definition n_gt_1 :: "dict \<Rightarrow> error + bool" where
  "n_gt_1 kw =
     (case map_of kw ''n'' of
        None \<Rightarrow> Inr False
      | Some v \<Rightarrow> (case num v of Inl e \<Rightarrow> Inl e | Inr x \<Rightarrow> Inr (num_lt (NInt 1) x)))"

text \<open>Lines 188 to 215: everything \<^verbatim>\<open>__call__\<close> does after the request has returned.\<close>

definition completions ::
  "env \<Rightarrow> gpt4vision \<Rightarrow> bool \<Rightarrow> bool \<Rightarrow> dict \<Rightarrow> dict \<Rightarrow> error + pyval list" where
  "completions E inst only_completed return_sorted kw response =
     (case select_choices only_completed response of
        Inl e \<Rightarrow> Inl e
      | Inr choices \<Rightarrow>
     (case traverse (get_choice_text inst) choices of
        Inl e \<Rightarrow> Inl e
      | Inr texts \<Rightarrow>
          if \<not> return_sorted then Inr texts
          else (case n_gt_1 kw of
                  Inl e \<Rightarrow> Inl e
                | Inr False \<Rightarrow> Inr texts
                | Inr True \<Rightarrow>
                    (case traverse (score_choice E inst) choices of
                       Inl e \<Rightarrow> Inl e
                     | Inr scored \<Rightarrow> sorted_completions scored))))"

text \<open>
  \<^verbatim>\<open>__call__\<close>. The two assertions come first. Lines 185 and 186 write the token
  count of the response to the log file, which is outside the state.
\<close>

definition call ::
  "env \<Rightarrow> nat \<Rightarrow> string \<Rightarrow> image_input option \<Rightarrow> bool \<Rightarrow> bool \<Rightarrow> dict \<Rightarrow> world \<Rightarrow>
   ((error + pyval list) \<times> world) option" where
  "call E self prompt img only_completed return_sorted kw w =
     (if \<not> only_completed then Some (Inl AssertionError, w)
      else if return_sorted \<noteq> False then Some (Inl AssertionError, w)
      else (case request E self prompt img kw w of
              None \<Rightarrow> None
            | Some (Inl e, w1) \<Rightarrow> Some (Inl e, w1)
            | Some (Inr response, w1) \<Rightarrow>
                Some (completions E (instances w1 self) only_completed return_sorted kw
                        response, w1)))"

section \<open>The score the spec asks for\<close>





section \<open>Reading an escaped character back\<close>

text \<open>
  The inverse of \<open>escape_char\<close>, on the front of a text: it shows that the text of
  a key ends where its closing quote is, whatever follows.
\<close>

definition unhex :: "char \<Rightarrow> nat" where
  "unhex c = (if (of_char c :: nat) < 58 then of_char c - 48 else of_char c - 87)"

definition unescape :: "string \<Rightarrow> (char \<times> string) option" where
  "unescape s =
     (case s of
        [] \<Rightarrow> None
      | c # rest \<Rightarrow>
          if c \<noteq> CHR 0x5C then Some (c, rest)
          else (case rest of
                  [] \<Rightarrow> None
                | d # r \<Rightarrow>
                    if d = CHR ''u''
                    then (case r of
                            a # b # h # l # r' \<Rightarrow> Some (char_of (16 * unhex h + unhex l), r')
                          | _ \<Rightarrow> None)
                    else if d = CHR ''n'' then Some (CHR 0x0A, r)
                    else if d = CHR ''r'' then Some (CHR 0x0D, r)
                    else if d = CHR ''t'' then Some (CHR 0x09, r)
                    else if d = CHR ''b'' then Some (CHR 0x08, r)
                    else if d = CHR ''f'' then Some (CHR 0x0C, r)
                    else Some (d, r)))"

section \<open>Sample clients, responses and environments\<close>

text \<open>The fields of a choice, read with a default where the field is missing.\<close>

definition finish_reason_of :: "pyval \<Rightarrow> pyval" where
  "finish_reason_of c = (case subscript c ''finish_reason'' of Inr v \<Rightarrow> v | Inl e \<Rightarrow> PNone)"

definition message_content_of :: "pyval \<Rightarrow> pyval" where
  "message_content_of c =
     (case subscript c ''message'' of
        Inr m \<Rightarrow> (case subscript m ''content'' of Inr v \<Rightarrow> v | Inl e \<Rightarrow> PNone)
      | Inl e \<Rightarrow> PNone)"



definition logprobs_of :: "pyval \<Rightarrow> pyval" where
  "logprobs_of c = (case subscript c ''logprobs'' of Inr lp \<Rightarrow> lp | Inl e \<Rightarrow> PNone)"



definition chat_choice :: "string \<Rightarrow> string \<Rightarrow> pyval" where
  "chat_choice finish text =
     PDict [(''finish_reason'', PStr finish), (''index'', PInt 0), (''logprobs'', PNone),
            (''message'', PDict [(''content'', PStr text), (''role'', PStr ''assistant'')])]"

definition chat_response :: dict where
  "chat_response =
     [(''id'', PStr ''chatcmpl-1''),
      (''choices'', PList [chat_choice ''stop'' ''a cat'']),
      (''usage'', PDict [(''total_tokens'', PInt 7)])]"

definition three_choices :: "pyval list" where
  "three_choices =
     [chat_choice ''length'' ''a c'', chat_choice ''stop'' ''a cat'',
      chat_choice ''stop'' ''a dog'']"

definition three_choice_response :: dict where
  "three_choice_response = [(''choices'', PList three_choices)]"

definition legacy_choice :: "string \<Rightarrow> string list \<Rightarrow> rat list \<Rightarrow> pyval" where
  "legacy_choice text toks lps =
     PDict [(''text'', PStr text), (''finish_reason'', PStr ''stop''),
            (''logprobs'', PDict [(''tokens'', PList (map PStr toks)),
                                  (''token_logprobs'', PList (map (\<lambda>q. PFloat (Finite q)) lps))])]"

definition scored_choices :: "pyval list" where
  "scored_choices =
     [legacy_choice ''unsure'' [''un'', ''sure''] [-1, -1],
      legacy_choice ''a cat'' [''a'', '' cat'', ''<|endoftext|>'', ''x''] [-1/8, -1/8, -1/8, -5]]"

definition scored_response :: dict where
  "scored_response = [(''choices'', PList scored_choices)]"

definition empty_logprobs_response :: dict where
  "empty_logprobs_response = [(''choices'', PList [legacy_choice ''a cat'' [] []])]"

definition absent_logprobs_response :: dict where
  "absent_logprobs_response =
     [(''choices'', PList [PDict [(''text'', PStr ''a cat''), (''finish_reason'', PStr ''stop''),
                                  (''logprobs'', PNone)]])]"

definition answering_api :: "nat \<Rightarrow> string \<Rightarrow> error + dict" where
  "answering_api n s = Inr chat_response"

definition three_choice_api :: "nat \<Rightarrow> string \<Rightarrow> error + dict" where
  "three_choice_api n s = Inr three_choice_response"

definition busy_twice_api :: "nat \<Rightarrow> string \<Rightarrow> error + dict" where
  "busy_twice_api n s = (if n < 2 then Inl RateLimitError else Inr chat_response)"

definition no_image :: "image_input \<Rightarrow> error + string" where
  "no_image i = Inl (OtherError ''unsupported image'')"

definition data_url :: "image_input \<Rightarrow> error + string" where
  "data_url i =
     (case i of
        ImgStr b \<Rightarrow> Inr (''data:image/png;base64,'' @ b)
      | ImgArray a \<Rightarrow> Inl (OtherError ''unsupported image'')
      | ImgObj u \<Rightarrow> Inr u)"

text \<open>
  The interpreter's part, on the floats of the samples only: \<^verbatim>\<open>0.0\<close> and \<^verbatim>\<open>0.5\<close>
  are written so, \<^verbatim>\<open>sum([-1.0, -1.0])\<close> is \<^verbatim>\<open>-2.0\<close> and
  \<^verbatim>\<open>sum([-0.125, -0.125, -0.125])\<close> is \<^verbatim>\<open>-0.375\<close>, \<^verbatim>\<open>-2.0 / 2\<close> is \<^verbatim>\<open>-1.0\<close> and
  \<^verbatim>\<open>-0.375 / 3\<close> is \<^verbatim>\<open>-0.125\<close> (all of them exact in binary floating point).
\<close>

definition sample_repr :: "rat \<Rightarrow> string" where
  "sample_repr q = (if q = 1 / 2 then ''0.5'' else ''0.0'')"

definition sample_sum :: "number list \<Rightarrow> error + pyfloat" where
  "sample_sum ns =
     (if ns = [NFloat (Finite (- 1)), NFloat (Finite (- 1))] then Inr (Finite (- 2))
      else if ns = [NFloat (Finite (- 1 / 8)), NFloat (Finite (- 1 / 8)), NFloat (Finite (- 1 / 8))]
      then Inr (Finite (- 3 / 8))
      else Inl (OtherError ''not a sum of the samples''))"

definition sample_div :: "number \<Rightarrow> int \<Rightarrow> error + pyfloat" where
  "sample_div x n =
     (if x = NFloat (Finite (- 2)) \<and> n = 2 then Inr (Finite (- 1))
      else if x = NFloat (Finite (- 3 / 8)) \<and> n = 3 then Inr (Finite (- 1 / 8))
      else Inl (OtherError ''not a quotient of the samples''))"

definition after_ten :: "nat \<Rightarrow> bool" where
  "after_ten t = (10 \<le> t)"

definition caching_env :: env where
  "caching_env =
     \<lparr> api = answering_api, init_from = no_image, cache_turn_on = True,
       persistent_cache_enabled = True, notebook_cache_enabled = False,
       budget_spent = after_ten, float_repr = sample_repr, float_sum = sample_sum,
       true_div = sample_div \<rparr>"


definition cache_off_env :: env where
  "cache_off_env =
     \<lparr> api = answering_api, init_from = no_image, cache_turn_on = False,
       persistent_cache_enabled = False, notebook_cache_enabled = False,
       budget_spent = after_ten, float_repr = sample_repr, float_sum = sample_sum,
       true_div = sample_div \<rparr>"

definition image_env :: env where
  "image_env = caching_env\<lparr>init_from := data_url\<rparr>"

definition three_choice_env :: env where
  "three_choice_env = caching_env\<lparr>api := three_choice_api\<rparr>"

definition busy_twice_env :: env where
  "busy_twice_env = caching_env\<lparr>api := busy_twice_api\<rparr>"

definition truncated_response :: dict where
  "truncated_response =
     [(''choices'', PList [chat_choice ''length'' ''a c'', chat_choice ''length'' ''a d''])]"

definition truncated_api :: "nat \<Rightarrow> string \<Rightarrow> error + dict" where
  "truncated_api n s = Inr truncated_response"

definition truncated_env :: env where
  "truncated_env = caching_env\<lparr>api := truncated_api\<rparr>"



definition empty_logprobs_api :: "nat \<Rightarrow> string \<Rightarrow> error + dict" where
  "empty_logprobs_api n s = Inr empty_logprobs_response"

definition empty_logprobs_env :: env where
  "empty_logprobs_env = caching_env\<lparr>api := empty_logprobs_api\<rparr>"

definition default_client :: "nat \<Rightarrow> gpt4vision" where
  "default_client i = init ''gpt-4-vision-preview'' None None []"

definition chat_client :: "nat \<Rightarrow> gpt4vision" where
  "chat_client i = init ''gpt-4-vision-preview'' (Some ''chat'') None []"

definition fresh_world :: world where
  "fresh_world =
     \<lparr> instances = default_client, memo = Map.empty, notebook = Map.empty,
       persistent = Map.empty, calls = [] \<rparr>"

definition chat_world :: world where
  "chat_world = fresh_world\<lparr>instances := chat_client\<rparr>"

section \<open>The cache key\<close>

text \<open>
  The text of a key can be read back from the front of what \<^verbatim>\<open>json.dumps\<close> writes,
  so two serialized dictionaries that differ in the order of their keys differ as
  texts. The merged dictionary is the defaults in their own order, with the overriding
  values, followed by the new options in the order of the call.
\<close>

lemma of_char_less_256: "(of_char c :: nat) < 256"
proof -
  have "(of_char c :: nat) mod 256 = of_char c" by simp
  then show ?thesis by (metis mod_less_divisor zero_less_numeral)
qed

lemma unhex_hex_digit: "k < 16 \<Longrightarrow> unhex (hex_digit k) = k"
  by (auto simp: unhex_def hex_digit_def)

lemma unescape_escape_char: "unescape (escape_char c @ x) = Some (c, x)"
proof -
  let ?n = "of_char c :: nat"
  have n: "?n < 256" by (rule of_char_less_256)
  have d: "?n div 16 < 16" using n by (simp add: less_mult_imp_div_less)
  have m: "?n mod 16 < 16" by simp
  have "char_of (16 * unhex (hex_digit (?n div 16)) + unhex (hex_digit (?n mod 16))) = c"
    by (simp add: unhex_hex_digit [OF d] unhex_hex_digit [OF m])
  then show ?thesis
    by (simp add: unescape_def escape_char_def)
qed

lemma escape_char_not_quote: "escape_char c @ x \<noteq> CHR 0x22 # y"
  by (simp add: escape_char_def)

lemma escaped_prefix:
  "concat (map escape_char s) @ CHR 0x22 # r = concat (map escape_char t) @ CHR 0x22 # r'
   \<Longrightarrow> s = t \<and> r = r'"
proof (induction s arbitrary: t)
  case Nil
  then show ?case
  proof (cases t)
    case Nil
    with Nil.prems show ?thesis by simp
  next
    case (Cons d t')
    with Nil.prems show ?thesis
      using escape_char_not_quote [of d "concat (map escape_char t') @ CHR 0x22 # r'" r]
      by simp
  qed
next
  case (Cons c s)
  show ?case
  proof (cases t)
    case Nil
    with Cons.prems show ?thesis
      using escape_char_not_quote [of c "concat (map escape_char s) @ CHR 0x22 # r" r']
      by simp
  next
    case (Cons d t')
    let ?X = "concat (map escape_char s) @ CHR 0x22 # r"
    let ?Y = "concat (map escape_char t') @ CHR 0x22 # r'"
    from Cons.prems Cons have e: "escape_char c @ ?X = escape_char d @ ?Y" by simp
    then have "unescape (escape_char c @ ?X) = unescape (escape_char d @ ?Y)" by simp
    then have cd: "c = d" and xy: "?X = ?Y" by (simp_all add: unescape_escape_char)
    from Cons.IH [OF xy] cd Cons show ?thesis by simp
  qed
qed

lemma json_str_prefix: "json_str s @ r = json_str t @ r' \<Longrightarrow> s = t"
  using escaped_prefix [of s r t r'] by (simp add: json_str_def)


lemma dict_items_inj:
  assumes "list_all2 (\<lambda>x y. fst x = fst y \<longrightarrow> x = y) xs ys"
    and "join '', '' (map (\<lambda>kv. json_str (fst kv) @ '': '' @ json_dumps fr (snd kv)) xs) @ r
       = join '', '' (map (\<lambda>kv. json_str (fst kv) @ '': '' @ json_dumps fr (snd kv)) ys) @ r'"
  shows "xs = ys"
  using assms
proof (induction xs ys rule: list_all2_induct)
  case Nil
  then show ?case by simp
next
  case (Cons x xs y ys)
  let ?item = "\<lambda>kv. json_str (fst kv) @ '': '' @ json_dumps fr (snd kv)"
  have len: "length xs = length ys" using Cons.hyps(2) by (rule list_all2_lengthD)
  show ?case
  proof (cases xs)
    case Nil
    then have ys: "ys = []" using len by simp
    from Cons.prems Nil ys
    have "json_str (fst x) @ ('': '' @ json_dumps fr (snd x) @ r)
        = json_str (fst y) @ ('': '' @ json_dumps fr (snd y) @ r')" by simp
    then have "fst x = fst y" by (rule json_str_prefix)
    with Cons.hyps(1) Nil ys show ?thesis by simp
  next
    case (Cons x2 xs')
    then obtain y2 ys' where ys: "ys = y2 # ys'" using len by (cases ys) auto
    from Cons.prems Cons ys
    have e: "?item x @ '', '' @ join '', '' (map ?item xs) @ r
           = ?item y @ '', '' @ join '', '' (map ?item ys) @ r'" by simp
    then have "json_str (fst x) @ ('': '' @ json_dumps fr (snd x) @ '', '' @ join '', '' (map ?item xs) @ r)
        = json_str (fst y) @ ('': '' @ json_dumps fr (snd y) @ '', '' @ join '', '' (map ?item ys) @ r')"
      by simp
    then have "fst x = fst y" by (rule json_str_prefix)
    with Cons.hyps(1) have xy: "x = y" by simp
    with e have "join '', '' (map ?item xs) @ r = join '', '' (map ?item ys) @ r'" by simp
    then have "xs = ys" by (rule Cons.IH)
    with xy show ?thesis by simp
  qed
qed

lemma json_dumps_dict_inj:
  assumes "list_all2 (\<lambda>x y. fst x = fst y \<longrightarrow> x = y) xs ys"
    and "json_dumps fr (PDict xs) = json_dumps fr (PDict ys)"
  shows "xs = ys"
  using dict_items_inj [OF assms(1), of fr "''}''" "''}''"] assms(2) by simp

lemma dict_set_present_keys:
  "map fst (map (\<lambda>(a, b). if a = k then (a, v) else (a, b)) d) = map fst d"
  by (induction d) auto

lemma dict_merge_Cons: "dict_merge d ((a, v) # k) = dict_merge (dict_set d a v) k"
  by (simp add: dict_merge_def)

lemma dict_merge_char:
  "distinct (map fst k) \<Longrightarrow>
   dict_merge d k =
     map (\<lambda>(a, b). case map_of k a of Some v \<Rightarrow> (a, v) | None \<Rightarrow> (a, b)) d
     @ filter (\<lambda>(a, b). a \<notin> fst ` set d) k"
proof (induction k arbitrary: d)
  case Nil
  then show ?case by (simp add: dict_merge_def case_prod_unfold)
next
  case (Cons x k)
  obtain a v where x: "x = (a, v)" by (cases x)
  from Cons.prems x have ak: "a \<notin> fst ` set k" and dk: "distinct (map fst k)" by auto
  have nk: "map_of k a = None" using ak by (simp add: map_of_eq_None_iff)
  show ?case
  proof (cases "a \<in> fst ` set d")
    case True
    let ?d' = "map (\<lambda>(c, b). if c = a then (c, v) else (c, b)) d"
    have ds: "dict_set d a v = ?d'"
      using True by (simp add: dict_set_def)
    have "set (map fst ?d') = set (map fst d)"
      by (simp only: dict_set_present_keys)
    then have keys: "fst ` set ?d' = fst ` set d" by (simp only: set_map)
    have m: "map (\<lambda>(c, b). case map_of k c of Some v' \<Rightarrow> (c, v') | None \<Rightarrow> (c, b)) ?d'
           = map (\<lambda>(c, b). case map_of ((a, v) # k) c of Some v' \<Rightarrow> (c, v') | None \<Rightarrow> (c, b)) d"
      using nk by (induction d) (auto split: option.splits)
    have f: "filter (\<lambda>(c, b). c \<notin> fst ` set d) ((a, v) # k) = filter (\<lambda>(c, b). c \<notin> fst ` set d) k"
      using True by simp
    show ?thesis
      unfolding x dict_merge_Cons ds Cons.IH [OF dk] keys m f ..
  next
    case False
    then have ds: "dict_set d a v = d @ [(a, v)]" by (simp add: dict_set_def)
    have f: "filter (\<lambda>(c, b). c \<notin> fst ` set (d @ [(a, v)])) k = filter (\<lambda>(c, b). c \<notin> fst ` set d) k"
      using ak by (intro filter_cong) (auto simp: image_iff)
    have m: "map (\<lambda>(c, b). case map_of ((a, v) # k) c of Some v' \<Rightarrow> (c, v') | None \<Rightarrow> (c, b)) d
           = map (\<lambda>(c, b). case map_of k c of Some v' \<Rightarrow> (c, v') | None \<Rightarrow> (c, b)) d"
      using False by (intro map_cong) (auto simp: image_iff)
    show ?thesis
      unfolding x dict_merge_Cons Cons.IH [OF dk] ds f m
      using False nk by simp
  qed
qed


lemma agree_map_inj:
  assumes "list_all2 (\<lambda>x y. fst x = fst y \<longrightarrow> x = y) xs ys"
    and "\<And>x. fst (f x) = fst x" and "map f xs = map f ys"
  shows "xs = ys"
  using assms(1,3)
proof (induction xs ys rule: list_all2_induct)
  case Nil
  then show ?case by simp
next
  case (Cons x xs y ys)
  then have "f x = f y" by simp
  then have "fst x = fst y" using assms(2) by metis
  with Cons show ?case by simp
qed

lemma agree_map:
  assumes "list_all2 (\<lambda>x y. fst x = fst y \<longrightarrow> x = y) xs ys"
    and "\<And>x. fst (f x) = fst x"
  shows "list_all2 (\<lambda>x y. fst x = fst y \<longrightarrow> x = y) (map f xs) (map f ys)"
  using assms(1)
  by (induction xs ys rule: list_all2_induct) (auto simp: assms(2))

lemma dict_set_agree:
  assumes "list_all2 (\<lambda>x y. fst x = fst y \<longrightarrow> x = y) xs ys"
    and "fst ` set xs = fst ` set ys"
  shows "list_all2 (\<lambda>x y. fst x = fst y \<longrightarrow> x = y) (dict_set xs k v) (dict_set ys k v)"
proof (cases "k \<in> fst ` set xs")
  case True
  have f: "\<And>x. fst ((\<lambda>(a, b). if a = k then (a, v) else (a, b)) x) = fst x"
    by (simp add: case_prod_unfold)
  show ?thesis
    using True assms(2) agree_map [OF assms(1) f] by (simp add: dict_set_def)
next
  case False
  then show ?thesis
    using assms by (simp add: dict_set_def list_all2_appendI)
qed

lemma dict_set_agree_inj:
  assumes "list_all2 (\<lambda>x y. fst x = fst y \<longrightarrow> x = y) xs ys"
    and "fst ` set xs = fst ` set ys"
    and "dict_set xs k v = dict_set ys k v"
  shows "xs = ys"
proof (cases "k \<in> fst ` set xs")
  case True
  have f: "\<And>x. fst ((\<lambda>(a, b). if a = k then (a, v) else (a, b)) x) = fst x"
    by (simp add: case_prod_unfold)
  from True assms(2,3)
  have "map (\<lambda>(a, b). if a = k then (a, v) else (a, b)) xs
      = map (\<lambda>(a, b). if a = k then (a, v) else (a, b)) ys"
    by (simp add: dict_set_def)
  then show ?thesis by (rule agree_map_inj [OF assms(1) f])
next
  case False
  then show ?thesis using assms(2,3) by (simp add: dict_set_def)
qed

lemma new_options_agree:
  assumes "distinct (map fst k1)" and "distinct (map fst k2)" and "set k1 = set k2"
  shows "list_all2 (\<lambda>x y. fst x = fst y \<longrightarrow> x = y) (filter P k1) (filter P k2)"
proof -
  have d1: "distinct (filter P k1)" and d2: "distinct (filter P k2)"
    using assms(1,2) by (simp_all add: distinct_map)
  have s: "set (filter P k1) = set (filter P k2)" using assms(3) by simp
  have len: "length (filter P k1) = length (filter P k2)"
    using d1 d2 s by (metis distinct_card)
  have "\<And>i. i < length (filter P k1) \<Longrightarrow>
          fst (filter P k1 ! i) = fst (filter P k2 ! i) \<longrightarrow> filter P k1 ! i = filter P k2 ! i"
  proof
    fix i assume i: "i < length (filter P k1)"
      and e: "fst (filter P k1 ! i) = fst (filter P k2 ! i)"
    have "filter P k1 ! i \<in> set k1" using i by (metis filter_is_subset nth_mem subsetD)
    moreover have "filter P k2 ! i \<in> set k1"
      using i len assms(3) by (metis filter_is_subset nth_mem subsetD)
    ultimately show "filter P k1 ! i = filter P k2 ! i"
      using assms(1) e by (metis eq_key_imp_eq_value prod.collapse)
  qed
  then show ?thesis using len by (simp add: list_all2_conv_all_nth)
qed

text \<open>
  C1, as the code has it. \<^verbatim>\<open>json.dumps\<close> is called without \<^verbatim>\<open>sort_keys\<close>, so the
  key follows the insertion order of the merged options. Two calls with the same option
  values get the same serialized request if and only if the options that are not among
  the instance's defaults come in the same relative order; the order of the options
  that override a default does not matter.
\<close>

theorem cache_key_insertion_order:
  assumes "distinct (map fst k1)" and "distinct (map fst k2)" and "set k1 = set k2"
  shows "stringify_request E inst prompt url k1 = stringify_request E inst prompt url k2
         \<longleftrightarrow> filter (\<lambda>(a, b). a \<notin> fst ` set (kwargs inst)) k1
             = filter (\<lambda>(a, b). a \<notin> fst ` set (kwargs inst)) k2"
proof -
  let ?d = "kwargs inst"
  let ?new = "\<lambda>(a, b). a \<notin> fst ` set ?d"
  let ?A = "map (\<lambda>(a, b). case map_of k1 a of Some v \<Rightarrow> (a, v) | None \<Rightarrow> (a, b)) ?d"
  let ?M = "PList (messages inst prompt url)"
  have m: "map_of k1 = map_of k2"
    using assms by (simp add: map_of_inject_set)
  have c1: "dict_merge ?d k1 = ?A @ filter ?new k1"
    using assms(1) by (rule dict_merge_char)
  have c2: "dict_merge ?d k2 = ?A @ filter ?new k2"
    using dict_merge_char [OF assms(2), of ?d] m by simp
  have agree: "list_all2 (\<lambda>x y. fst x = fst y \<longrightarrow> x = y)
                 (?A @ filter ?new k1) (?A @ filter ?new k2)"
    by (intro list_all2_appendI new_options_agree [OF assms]) (simp add: list_all2_same)
  have keys: "fst ` set (?A @ filter ?new k1) = fst ` set (?A @ filter ?new k2)"
    using assms(3) by simp
  show ?thesis
  proof
    assume "stringify_request E inst prompt url k1 = stringify_request E inst prompt url k2"
    then have "json_dumps (float_repr E)
                 (PDict (dict_set (?A @ filter ?new k1) ''messages'' ?M))
             = json_dumps (float_repr E)
                 (PDict (dict_set (?A @ filter ?new k2) ''messages'' ?M))"
      by (simp add: stringify_request_def merged_kwargs_def c1 c2)
    then have "dict_set (?A @ filter ?new k1) ''messages'' ?M
             = dict_set (?A @ filter ?new k2) ''messages'' ?M"
      by (rule json_dumps_dict_inj [OF dict_set_agree [OF agree keys]])
    then have "?A @ filter ?new k1 = ?A @ filter ?new k2"
      by (rule dict_set_agree_inj [OF agree keys])
    then show "filter ?new k1 = filter ?new k2" by simp
  next
    assume "filter ?new k1 = filter ?new k2"
    then show "stringify_request E inst prompt url k1 = stringify_request E inst prompt url k2"
      by (simp add: stringify_request_def merged_kwargs_def c1 c2)
  qed
qed

text \<open>
  C1 as stated fails: the same two options passed in the two possible orders give two
  different serialized requests, hence two cache entries.
\<close>

theorem cache_key_order_counterexample:
  "set [(''seed'', PInt 1), (''user'', PStr ''u'')] = set [(''user'', PStr ''u''), (''seed'', PInt 1)]
   \<and> stringify_request caching_env (default_client 0) ''What is this?'' None
        [(''seed'', PInt 1), (''user'', PStr ''u'')]
     \<noteq> stringify_request caching_env (default_client 0) ''What is this?'' None
        [(''user'', PStr ''u''), (''seed'', PInt 1)]"
  by code_simp

theorem cache_key_insertion_order_witness:
  "stringify_request caching_env (default_client 0) ''What is this?'' None
      [(''seed'', PInt 1), (''n'', PInt 2), (''temperature'', PFloat (Finite (1 / 2)))]
   = stringify_request caching_env (default_client 0) ''What is this?'' None
      [(''temperature'', PFloat (Finite (1 / 2))), (''seed'', PInt 1), (''n'', PInt 2)]"
proof -
  have 1: "distinct (map fst [(''seed'', PInt 1), (''n'', PInt 2),
                              (''temperature'', PFloat (Finite (1 / 2)))])"
    by simp
  have 2: "distinct (map fst [(''temperature'', PFloat (Finite (1 / 2))), (''seed'', PInt 1),
                              (''n'', PInt 2)])"
    by simp
  have 3: "set [(''seed'', PInt 1), (''n'', PInt 2), (''temperature'', PFloat (Finite (1 / 2)))]
         = set [(''temperature'', PFloat (Finite (1 / 2))), (''seed'', PInt 1), (''n'', PInt 2)]"
    by auto
  have 4: "filter (\<lambda>(a, b). a \<notin> fst ` set (kwargs (default_client 0)))
             [(''seed'', PInt 1), (''n'', PInt 2), (''temperature'', PFloat (Finite (1 / 2)))]
         = filter (\<lambda>(a, b). a \<notin> fst ` set (kwargs (default_client 0)))
             [(''temperature'', PFloat (Finite (1 / 2))), (''seed'', PInt 1), (''n'', PInt 2)]"
    by code_simp
  show ?thesis using cache_key_insertion_order [OF 1 2 3] 4 by blast
qed

section \<open>The guard of \<^verbatim>\<open>__call__\<close>\<close>

text \<open>
  C10: a call with \<^verbatim>\<open>only_completed\<close> false or \<^verbatim>\<open>return_sorted\<close> true raises
  \<^verbatim>\<open>AssertionError\<close> and leaves the whole state as it was: no request is built, no
  cache tier is read or written, no network call is made, no history is touched.
\<close>

theorem call_guard:
  "\<not> only_completed \<or> return_sorted \<Longrightarrow>
   call E self prompt img only_completed return_sorted kw w = Some (Inl AssertionError, w)"
  by (auto simp: call_def)

theorem call_guard_witness:
  "call caching_env 0 ''What is this?'' None False True [] fresh_world
     = Some (Inl AssertionError, fresh_world)"
  using call_guard [of False True caching_env 0 "''What is this?''" None "[]" fresh_world] by simp

section \<open>Text extraction\<close>

text \<open>
  C9: a client built with the default \<^verbatim>\<open>model_type\<close> sends a chat request, gets a
  chat-style response, and then reads \<^verbatim>\<open>choice["text"]\<close>, which such a response
  does not have: the call raises \<^verbatim>\<open>KeyError\<close>.
\<close>

theorem default_client_key_error:
  "map_option fst (call caching_env 0 ''What is this?'' None True False [] fresh_world)
   = Some (Inl (KeyError ''text''))"
  by code_simp

section \<open>The cache tiers, caching turned on\<close>

text \<open>
  C2, as the code has it. With \<^verbatim>\<open>cache_turn_on\<close> true (the memo is unbounded) and the
  persistent layer enabled, the first call with a serialized request that no tier holds
  makes exactly one network call and stores the response in the memo and in the
  persistent store; a second call with the same serialized request returns the stored
  response and leaves the state as it is, so no network call is made.
\<close>

theorem two_tier_cache:
  assumes "cache_turn_on E" and "persistent_cache_enabled E"
    and "memo w s = None" and "notebook w s = None" and "persistent w s = None"
    and "api E (length (calls w)) s = Inr r"
  shows "\<exists>w1. chat_request E s w = (Inr r, w1)
            \<and> calls w1 = calls w @ [s] \<and> memo w1 s = Some r \<and> persistent w1 s = Some r
            \<and> chat_request E s w1 = (Inr r, w1)"
  using assms
  by (cases "notebook_cache_enabled E")
     (simp_all add: chat_request_def cached_gpt4vision_chat_request_wrapped_def
        cached_gpt4vision_chat_request_def cache_layer_def openai_chat_completions_create_def
        put_memo_def put_notebook_def put_persistent_def)

theorem two_tier_cache_witness:
  "\<exists>w1. chat_request caching_env ''{}'' fresh_world = (Inr chat_response, w1)
            \<and> calls w1 = calls fresh_world @ [''{}''] \<and> memo w1 ''{}'' = Some chat_response
            \<and> persistent w1 ''{}'' = Some chat_response
            \<and> chat_request caching_env ''{}'' w1 = (Inr chat_response, w1)"
proof -
  have 1: "cache_turn_on caching_env" by (simp add: caching_env_def)
  have 2: "persistent_cache_enabled caching_env" by (simp add: caching_env_def)
  have 3: "memo fresh_world ''{}'' = None" by (simp add: fresh_world_def)
  have 4: "notebook fresh_world ''{}'' = None" by (simp add: fresh_world_def)
  have 5: "persistent fresh_world ''{}'' = None" by (simp add: fresh_world_def)
  have 6: "api caching_env (length (calls fresh_world)) ''{}'' = Inr chat_response"
    by (simp add: caching_env_def answering_api_def)
  show ?thesis by (rule two_tier_cache [OF 1 2 3 4 5 6])
qed

text \<open>
  C2 as stated fails with caching turned off: \<^verbatim>\<open>lru_cache(maxsize=0)\<close> stores nothing,
  the first call leaves the memo empty, and the second call goes to the network again.
\<close>

theorem cache_turned_off_counterexample:
  "fst (chat_request cache_off_env ''{}'' fresh_world) = Inr chat_response
   \<and> memo (snd (chat_request cache_off_env ''{}'' fresh_world)) ''{}'' = None
   \<and> calls (snd (chat_request cache_off_env ''{}''
               (snd (chat_request cache_off_env ''{}'' fresh_world)))) = [''{}'', ''{}'']"
  by (simp add: chat_request_def cached_gpt4vision_chat_request_wrapped_def
        cached_gpt4vision_chat_request_def cache_layer_def openai_chat_completions_create_def
        cache_off_env_def fresh_world_def answering_api_def)

section \<open>The call history\<close>

lemma cache_layer_instances:
  assumes "\<And>s w res w1. f s w = (res, w1) \<Longrightarrow> instances w1 = instances w"
    and "\<And>s r w. instances (put s r w) = instances w"
    and "cache_layer enabled get put f s w = (res, w1)"
  shows "instances w1 = instances w"
  using assms(3) assms(1) [of s w] assms(2)
  by (auto simp: cache_layer_def split: if_splits option.splits sum.splits prod.splits)

lemma chat_request_instances:
  "chat_request E s w = (res, w1) \<Longrightarrow> instances w1 = instances w"
  unfolding chat_request_def cached_gpt4vision_chat_request_wrapped_def
    cached_gpt4vision_chat_request_def
  apply (erule cache_layer_instances [rotated 2])
   apply (erule cache_layer_instances [rotated 2])
    apply (erule cache_layer_instances [rotated 2])
     apply (auto simp: openai_chat_completions_create_def put_memo_def put_notebook_def
        put_persistent_def)
  done

text \<open>
  C8, as the code has it. A call of \<^verbatim>\<open>basic_request\<close> never touches another
  instance. If it raises, no instance changes. If it returns, exactly one record is
  appended to the history of the invoking instance, with the prompt, the image
  reference, the response, the raw keyword arguments, and, under \<^verbatim>\<open>"kwargs"\<close>, the
  one-entry dictionary that maps \<^verbatim>\<open>stringify_request\<close> to the serialized merged
  options (line 124 rebinds \<^verbatim>\<open>kwargs\<close> before the record is built).
\<close>

theorem basic_request_history:
  assumes "basic_request E self prompt img kw w = (res, w')"
  shows "(\<forall>j. j \<noteq> self \<longrightarrow> instances w' j = instances w j)
       \<and> (case res of
            Inl e \<Rightarrow> instances w' = instances w
          | Inr response \<Rightarrow>
              (\<exists>url himg. resolve_image E img = Inr url \<and> history_image E url = Inr himg
                 \<and> instances w' self = (instances w self)
                      \<lparr>history := history (instances w self) @
                         [[(''prompt'', PStr prompt), (''image'', himg),
                           (''response'', PDict response),
                           (''kwargs'', PDict [(''stringify_request'',
                               PStr (stringify_request E (instances w self) prompt url kw))]),
                           (''raw_kwargs'', PDict kw)]]\<rparr>))"
  using assms
  by (auto simp: basic_request_def Let_def append_history_def
      split: sum.splits prod.splits dest: chat_request_instances)

theorem basic_request_history_witness:
  "history (instances (snd (basic_request image_env 0 ''What is this?''
                              (Some (ImgStr ''iVBORw0KGgo='')) [(''n'', PInt 2)] fresh_world)) 0)
     = [[(''prompt'', PStr ''What is this?''),
         (''image'', PStr ''data:image/png;base64,iVBORw0KGgo=''),
         (''response'', PDict chat_response),
         (''kwargs'', PDict [(''stringify_request'',
             PStr (stringify_request image_env (default_client 0) ''What is this?''
                     (Some ''data:image/png;base64,iVBORw0KGgo='') [(''n'', PInt 2)]))]),
         (''raw_kwargs'', PDict [(''n'', PInt 2)])]]
   \<and> instances (snd (basic_request image_env 0 ''What is this?''
                         (Some (ImgStr ''iVBORw0KGgo='')) [(''n'', PInt 2)] fresh_world)) 1
     = instances fresh_world 1"
proof -
  let ?b = "basic_request image_env 0 ''What is this?'' (Some (ImgStr ''iVBORw0KGgo=''))
              [(''n'', PInt 2)] fresh_world"
  have r: "fst ?b = Inr chat_response" by code_simp
  have h: "?b = (Inr chat_response, snd ?b)" using r by (metis prod.collapse)
  have i: "instances fresh_world 0 = default_client 0" by (simp add: fresh_world_def)
  have e: "history (default_client 0) = []" by (simp add: default_client_def init_def)
  show ?thesis
    using basic_request_history [OF h]
    by (auto simp: i e resolve_image_def history_image_def image_env_def data_url_def)
qed

text \<open>
  C8 as stated fails: the \<^verbatim>\<open>"kwargs"\<close> field of the record is not the merged options,
  with or without the messages.
\<close>

theorem history_kwargs_counterexample:
  "map_of (last (history (instances (snd (basic_request caching_env 0 ''What is this?'' None
                                            [(''n'', PInt 2)] fresh_world)) 0))) ''kwargs''
     \<noteq> Some (PDict (dict_merge (kwargs (default_client 0)) [(''n'', PInt 2)]))
   \<and> map_of (last (history (instances (snd (basic_request caching_env 0 ''What is this?'' None
                                            [(''n'', PInt 2)] fresh_world)) 0))) ''kwargs''
     \<noteq> Some (PDict (merged_kwargs (default_client 0) ''What is this?'' None [(''n'', PInt 2)]))"
  by code_simp

section \<open>Retries\<close>

lemma chat_request_miss_error:
  assumes "memo w s = None" and "notebook w s = None" and "persistent w s = None"
    and "api E (length (calls w)) s = Inl e"
  shows "chat_request E s w = (Inl e, w\<lparr>calls := calls w @ [s]\<rparr>)"
  using assms
  by (simp add: chat_request_def cached_gpt4vision_chat_request_wrapped_def
        cached_gpt4vision_chat_request_def cache_layer_def openai_chat_completions_create_def)

lemma chat_request_miss_calls:
  assumes "memo w s = None" and "notebook w s = None" and "persistent w s = None"
    and "api E (length (calls w)) s = Inr r"
  shows "\<exists>w1. chat_request E s w = (Inr r, w1) \<and> calls w1 = calls w @ [s]"
  using assms
  by (simp add: chat_request_def cached_gpt4vision_chat_request_wrapped_def
        cached_gpt4vision_chat_request_def cache_layer_def openai_chat_completions_create_def
        put_memo_def put_notebook_def put_persistent_def)

lemma request_body_miss:
  assumes "resolve_image E img = Inr url" and "history_image E url = Inr himg"
    and "s = stringify_request E (instances w self) prompt url (dict_del kw ''model_type'')"
    and "memo w s = None" and "notebook w s = None" and "persistent w s = None"
    and "api E (length (calls w)) s = out"
  shows "\<exists>w'. request_body E self prompt img kw w = (out, w')
            \<and> calls w' = calls w @ [s]
            \<and> (\<forall>e. out = Inl e \<longrightarrow> w' = w\<lparr>calls := calls w @ [s]\<rparr>)"
proof (cases out)
  case (Inl e)
  then show ?thesis
    using assms chat_request_miss_error [of w s E e]
    by (simp add: request_body_def basic_request_def)
next
  case (Inr r)
  with assms obtain w1 where "chat_request E s w = (Inr r, w1)" "calls w1 = calls w @ [s]"
    using chat_request_miss_calls [of w s E r] by auto
  then show ?thesis
    using assms Inr by (simp add: request_body_def basic_request_def append_history_def)
qed

lemma retry_outcome:
  assumes "resolve_image E img = Inr url" and "history_image E url = Inr himg"
    and "s = stringify_request E (instances w self) prompt url (dict_del kw ''model_type'')"
    and "memo w s = None" and "notebook w s = None" and "persistent w s = None"
    and "\<forall>i<k. api E (length (calls w) + i) s = Inl RateLimitError"
    and "\<forall>i<k. \<not> budget_spent E (tries + i)"
    and "api E (length (calls w) + k) s = out" and "out \<noteq> Inl RateLimitError"
  shows "\<exists>w'. retry E self tries prompt img kw w = Some (out, w')
            \<and> calls w' = calls w @ replicate (Suc k) s
            \<and> (\<forall>e. out = Inl e \<longrightarrow> w' = w\<lparr>calls := calls w @ replicate (Suc k) s\<rparr>)"
  using assms
proof (induction k arbitrary: w tries)
  case 0
  from request_body_miss [OF "0.prems"(1-6), of out] "0.prems"(9)
  obtain w' where b: "request_body E self prompt img kw w = (out, w')"
    "calls w' = calls w @ [s]" "\<forall>e. out = Inl e \<longrightarrow> w' = w\<lparr>calls := calls w @ [s]\<rparr>"
    by auto
  have "retry E self tries prompt img kw w = Some (out, w')"
    using b(1) "0.prems"(10)
    by (subst retry.simps) (auto simp: ERRORS_def split: sum.splits)
  then show ?case using b by simp
next
  case (Suc k)
  let ?w1 = "w\<lparr>calls := calls w @ [s]\<rparr>"
  have rl: "api E (length (calls w)) s = Inl RateLimitError"
    using Suc.prems(7) by (metis add.right_neutral zero_less_Suc)
  from request_body_miss [OF Suc.prems(1-6) rl]
  have b: "request_body E self prompt img kw w = (Inl RateLimitError, ?w1)" by auto
  have nb: "\<not> budget_spent E tries"
    using Suc.prems(8) by (metis add.right_neutral zero_less_Suc)
  have step: "retry E self tries prompt img kw w = retry E self (Suc tries) prompt img kw ?w1"
    using b nb by (subst retry.simps) (simp add: ERRORS_def)
  have s1: "s = stringify_request E (instances ?w1 self) prompt url (dict_del kw ''model_type'')"
    using Suc.prems(3) by simp
  have a1: "\<forall>i<k. api E (length (calls ?w1) + i) s = Inl RateLimitError"
    using Suc.prems(7) by auto
  have b1: "\<forall>i<k. \<not> budget_spent E (Suc tries + i)"
    using Suc.prems(8) by auto
  have o1: "api E (length (calls ?w1) + k) s = out"
    using Suc.prems(9) by simp
  from Suc.IH [of ?w1 "Suc tries", OF Suc.prems(1,2) s1 _ _ _ a1 b1 o1 Suc.prems(10)]
    Suc.prems(4-6)
  obtain w' where r: "retry E self (Suc tries) prompt img kw ?w1 = Some (out, w')"
    "calls w' = calls ?w1 @ replicate (Suc k) s"
    "\<forall>e. out = Inl e \<longrightarrow> w' = ?w1\<lparr>calls := calls ?w1 @ replicate (Suc k) s\<rparr>"
    by auto
  show ?case using step r by (auto simp: replicate_append_same)
qed

lemma request_image_error:
  assumes "resolve_image E img = Inl e" and "e \<noteq> RateLimitError"
  shows "request E self prompt img kw w = Some (Inl e, w)"
  unfolding request_def
  using assms
  by (subst retry.simps) (simp add: request_body_def basic_request_def ERRORS_def)

text \<open>
  C4: only the rate-limit error is retried. An error of the image resolver other than
  the rate-limit error is raised at once, the state untouched. And when the serialized
  request is in no cache tier, the remote call raises the rate-limit error \<open>k\<close> times
  while the time budget lasts, and its next outcome \<open>out\<close> is anything else, a
  response or another error, then \<^verbatim>\<open>request\<close> ends with \<open>out\<close> after exactly
  \<open>k + 1\<close> network calls: a response stops the retries at whatever attempt it comes,
  and another error is raised at once, with nothing but the list of network calls
  changed (no cache tier and no history is written).
\<close>

theorem request_retries_rate_limit_only:
  "(\<forall>e. resolve_image E img = Inl e \<longrightarrow> e \<noteq> RateLimitError \<longrightarrow>
        request E self prompt img kw w = Some (Inl e, w))
   \<and> (\<forall>url himg s k out.
        resolve_image E img = Inr url \<longrightarrow> history_image E url = Inr himg \<longrightarrow>
        s = stringify_request E (instances w self) prompt url (dict_del kw ''model_type'') \<longrightarrow>
        memo w s = None \<longrightarrow> notebook w s = None \<longrightarrow> persistent w s = None \<longrightarrow>
        (\<forall>i<k. api E (length (calls w) + i) s = Inl RateLimitError) \<longrightarrow>
        (\<forall>i<k. \<not> budget_spent E (Suc i)) \<longrightarrow>
        api E (length (calls w) + k) s = out \<longrightarrow> out \<noteq> Inl RateLimitError \<longrightarrow>
        (\<exists>w'. request E self prompt img kw w = Some (out, w')
            \<and> calls w' = calls w @ replicate (Suc k) s
            \<and> (\<forall>e. out = Inl e \<longrightarrow> w' = w\<lparr>calls := calls w @ replicate (Suc k) s\<rparr>)))"
proof (intro conjI allI impI)
  fix e assume "resolve_image E img = Inl e" and "e \<noteq> RateLimitError"
  then show "request E self prompt img kw w = Some (Inl e, w)"
    by (rule request_image_error)
next
  fix url himg s k out
  assume a: "resolve_image E img = Inr url" "history_image E url = Inr himg"
    "s = stringify_request E (instances w self) prompt url (dict_del kw ''model_type'')"
    "memo w s = None" "notebook w s = None" "persistent w s = None"
    "\<forall>i<k. api E (length (calls w) + i) s = Inl RateLimitError"
    and b: "\<forall>i<k. \<not> budget_spent E (Suc i)"
    and c: "api E (length (calls w) + k) s = out" "out \<noteq> Inl RateLimitError"
  show "\<exists>w'. request E self prompt img kw w = Some (out, w')
            \<and> calls w' = calls w @ replicate (Suc k) s
            \<and> (\<forall>e. out = Inl e \<longrightarrow> w' = w\<lparr>calls := calls w @ replicate (Suc k) s\<rparr>)"
    unfolding request_def
    using retry_outcome [OF a _ c, of 1] b by simp
qed

theorem request_retries_rate_limit_only_witness:
  "\<exists>w'. request busy_twice_env 0 ''What is this?'' None [] fresh_world
           = Some (Inr chat_response, w')
        \<and> calls w' = calls fresh_world
             @ replicate (Suc 2) (stringify_request busy_twice_env (instances fresh_world 0) ''What is this?'' None
                                    (dict_del [] ''model_type''))"
proof -
  let ?s = "stringify_request busy_twice_env (instances fresh_world 0) ''What is this?'' None
              (dict_del [] ''model_type'')"
  have 1: "resolve_image busy_twice_env None = Inr None" by (simp add: resolve_image_def)
  have 2: "history_image busy_twice_env None = Inr PNone" by (simp add: history_image_def)
  have 4: "memo fresh_world ?s = None" by (simp add: fresh_world_def)
  have 5: "notebook fresh_world ?s = None" by (simp add: fresh_world_def)
  have 6: "persistent fresh_world ?s = None" by (simp add: fresh_world_def)
  have 7: "\<forall>i<2. api busy_twice_env (length (calls fresh_world) + i) ?s = Inl RateLimitError"
    by (simp add: busy_twice_env_def caching_env_def busy_twice_api_def fresh_world_def)
  have 8: "\<forall>i<2. \<not> budget_spent busy_twice_env (Suc i)"
    by (simp add: busy_twice_env_def caching_env_def after_ten_def)
  have 9: "api busy_twice_env (length (calls fresh_world) + 2) ?s = Inr chat_response"
    by (simp add: busy_twice_env_def caching_env_def busy_twice_api_def fresh_world_def)
  have 10: "Inr chat_response \<noteq> (Inl RateLimitError :: error + dict)" by simp
  from request_retries_rate_limit_only
    [of busy_twice_env None 0 "''What is this?''" "[]" fresh_world]
  have "\<forall>url himg s k out.
        resolve_image busy_twice_env None = Inr url \<longrightarrow>
        history_image busy_twice_env url = Inr himg \<longrightarrow>
        s = stringify_request busy_twice_env (instances fresh_world 0) ''What is this?'' url
              (dict_del [] ''model_type'') \<longrightarrow>
        memo fresh_world s = None \<longrightarrow> notebook fresh_world s = None \<longrightarrow>
        persistent fresh_world s = None \<longrightarrow>
        (\<forall>i<k. api busy_twice_env (length (calls fresh_world) + i) s = Inl RateLimitError) \<longrightarrow>
        (\<forall>i<k. \<not> budget_spent busy_twice_env (Suc i)) \<longrightarrow>
        api busy_twice_env (length (calls fresh_world) + k) s = out \<longrightarrow>
        out \<noteq> Inl RateLimitError \<longrightarrow>
        (\<exists>w'. request busy_twice_env 0 ''What is this?'' None [] fresh_world = Some (out, w')
            \<and> calls w' = calls fresh_world @ replicate (Suc k) s
            \<and> (\<forall>e. out = Inl e \<longrightarrow>
                  w' = fresh_world\<lparr>calls := calls fresh_world @ replicate (Suc k) s\<rparr>))"
    by (rule conjunct2)
  from this [rule_format, OF 1 2 refl 4 5 6 _ _ 9 10] 7 8
  show ?thesis by blast
qed

text \<open>
  When the remote call raises the rate-limit error at every attempt, the request makes
  one attempt after another until the budget is found spent, at attempt \<open>k + 1\<close> say,
  and then raises the last rate-limit error. How much time has passed by then is not a
  matter of the embedding.
\<close>

lemma retry_gives_up:
  assumes "resolve_image E img = Inr url"
    and "s = stringify_request E (instances w self) prompt url (dict_del kw ''model_type'')"
    and "memo w s = None" and "notebook w s = None" and "persistent w s = None"
    and "\<forall>i\<le>k. api E (length (calls w) + i) s = Inl RateLimitError"
    and "\<forall>i<k. \<not> budget_spent E (tries + i)"
    and "budget_spent E (tries + k)"
  shows "retry E self tries prompt img kw w
           = Some (Inl RateLimitError, w\<lparr>calls := calls w @ replicate (Suc k) s\<rparr>)"
  using assms
proof (induction k arbitrary: w tries)
  case 0
  have rl: "api E (length (calls w)) s = Inl RateLimitError" using "0.prems"(6) by simp
  have "chat_request E s w = (Inl RateLimitError, w\<lparr>calls := calls w @ [s]\<rparr>)"
    by (rule chat_request_miss_error [OF "0.prems"(3-5) rl])
  then have b: "request_body E self prompt img kw w
                 = (Inl RateLimitError, w\<lparr>calls := calls w @ [s]\<rparr>)"
    using "0.prems"(1,2) by (simp add: request_body_def basic_request_def)
  show ?case
    using b "0.prems"(8) by (subst retry.simps) (simp add: ERRORS_def)
next
  case (Suc k)
  let ?w1 = "w\<lparr>calls := calls w @ [s]\<rparr>"
  have rl: "api E (length (calls w)) s = Inl RateLimitError"
    using Suc.prems(6) by (metis add.right_neutral le0)
  have "chat_request E s w = (Inl RateLimitError, ?w1)"
    by (rule chat_request_miss_error [OF Suc.prems(3-5) rl])
  then have b: "request_body E self prompt img kw w = (Inl RateLimitError, ?w1)"
    using Suc.prems(1,2) by (simp add: request_body_def basic_request_def)
  have nb: "\<not> budget_spent E tries"
    using Suc.prems(7) by (metis add.right_neutral zero_less_Suc)
  have step: "retry E self tries prompt img kw w = retry E self (Suc tries) prompt img kw ?w1"
    using b nb by (subst retry.simps) (simp add: ERRORS_def)
  have s1: "s = stringify_request E (instances ?w1 self) prompt url (dict_del kw ''model_type'')"
    using Suc.prems(2) by simp
  have a1: "\<forall>i\<le>k. api E (length (calls ?w1) + i) s = Inl RateLimitError"
    using Suc.prems(6) by auto
  have b1: "\<forall>i<k. \<not> budget_spent E (Suc tries + i)"
    using Suc.prems(7) by auto
  have g1: "budget_spent E (Suc tries + k)"
    using Suc.prems(8) by simp
  have "retry E self (Suc tries) prompt img kw ?w1
          = Some (Inl RateLimitError, ?w1\<lparr>calls := calls ?w1 @ replicate (Suc k) s\<rparr>)"
    using Suc.IH [of ?w1 "Suc tries", OF Suc.prems(1) s1 _ _ _ a1 b1 g1] Suc.prems(3-5)
    by simp
  then show ?case using step by (simp add: replicate_append_same)
qed

section \<open>Choosing the completed choices\<close>

lemma completed_choices_filter:
  "\<forall>c\<in>set cs. subscript c ''finish_reason'' = Inr (finish c) \<Longrightarrow>
   completed_choices cs = Inr (filter (\<lambda>c. finish c \<noteq> PStr ''length'') cs)"
  by (induction cs) auto

lemma traverse_map: "\<forall>x\<in>set xs. f x = Inr (g x) \<Longrightarrow> traverse f xs = Inr (map g xs)"
  by (induction xs) auto

lemma traverse_fails: "x \<in> set xs \<Longrightarrow> f x = Inl e \<Longrightarrow> \<exists>e'. traverse f xs = Inl e'"
  by (induction xs) (auto split: sum.splits)

lemma select_choices_filter:
  assumes "map_of response ''choices'' = Some (PList choices)"
    and "\<forall>c\<in>set choices. subscript c ''finish_reason'' = Inr (finish c)"
  shows "select_choices True response =
           Inr (if \<exists>c\<in>set choices. finish c \<noteq> PStr ''length''
                then filter (\<lambda>c. finish c \<noteq> PStr ''length'') choices else choices)"
proof -
  have "completed_choices choices = Inr (filter (\<lambda>c. finish c \<noteq> PStr ''length'') choices)"
    by (rule completed_choices_filter [OF assms(2)])
  then show ?thesis
    using assms(1) by (auto simp: select_choices_def as_list_def filter_empty_conv)
qed

text \<open>
  Where the configured extraction path can read the text of every choice, a call with
  \<^verbatim>\<open>only_completed\<close> true returns the texts of the choices whose finish indicator is
  not \<^verbatim>\<open>"length"\<close>, in their order, if there is such a choice, and the texts of all
  choices otherwise. A client built with \<^verbatim>\<open>model_type="chat"\<close> is in that case.
\<close>

lemma call_only_completed:
  assumes "request E self prompt img kw w = Some (Inr response, w1)"
    and "map_of response ''choices'' = Some (PList choices)"
    and "\<forall>c\<in>set choices. subscript c ''finish_reason'' = Inr (finish c)"
    and "\<forall>c\<in>set choices. get_choice_text (instances w1 self) c = Inr (text c)"
  shows "call E self prompt img True False kw w =
           Some (Inr (map text
                   (if \<exists>c\<in>set choices. finish c \<noteq> PStr ''length''
                    then filter (\<lambda>c. finish c \<noteq> PStr ''length'') choices else choices)), w1)"
proof -
  let ?sel = "if \<exists>c\<in>set choices. finish c \<noteq> PStr ''length''
              then filter (\<lambda>c. finish c \<noteq> PStr ''length'') choices else choices"
  have sel: "select_choices True response = Inr ?sel"
    by (rule select_choices_filter [OF assms(2,3)])
  have "\<forall>c\<in>set ?sel. get_choice_text (instances w1 self) c = Inr (text c)"
    using assms(4) by auto
  then have "traverse (get_choice_text (instances w1 self)) ?sel = Inr (map text ?sel)"
    by (rule traverse_map)
  then show ?thesis
    using assms(1) sel by (simp add: call_def completions_def)
qed

lemma call_only_completed_chat:
  "map_option fst (call three_choice_env 0 ''What is this?'' None True False [] chat_world)
     = Some (Inr [PStr ''a cat'', PStr ''a dog''])"
proof -
  let ?r = "request three_choice_env 0 ''What is this?'' None [] chat_world"
  have a: "?r \<noteq> None" by code_simp
  have b: "fst (the ?r) = Inr three_choice_response" by code_simp
  have 1: "?r = Some (Inr three_choice_response, snd (the ?r))"
    using a b by (metis option.collapse prod.collapse)
  have 2: "map_of three_choice_response ''choices'' = Some (PList three_choices)"
    by (simp add: three_choice_response_def)
  have 3: "\<forall>c\<in>set three_choices. subscript c ''finish_reason'' = Inr (finish_reason_of c)"
    by code_simp
  have 4: "\<forall>c\<in>set three_choices.
             get_choice_text (instances (snd (the ?r)) 0) c = Inr (message_content_of c)"
    by code_simp
  have 5: "map message_content_of
             (if \<exists>c\<in>set three_choices. finish_reason_of c \<noteq> PStr ''length''
              then filter (\<lambda>c. finish_reason_of c \<noteq> PStr ''length'') three_choices
              else three_choices) = [PStr ''a cat'', PStr ''a dog'']"
    by code_simp
  show ?thesis
    using call_only_completed [OF 1 2 3 4] by (simp only: 5 option.map fst_conv)
qed

text \<open>The fallback: two choices, both cut off by the length limit, are both returned.\<close>

lemma call_all_truncated:
  "map_option fst (call truncated_env 0 ''What is this?'' None True False [] chat_world)
     = Some (Inr [PStr ''a c'', PStr ''a d''])"
  by code_simp

text \<open>
  C5: on a client built with the default \<^verbatim>\<open>model_type\<close> the call does not return the
  two completed choices of a response with the finish indicators \<^verbatim>\<open>length\<close>,
  \<^verbatim>\<open>stop\<close>, \<^verbatim>\<open>stop\<close>: the choices are selected, and then the text of the first of
  them is read as \<^verbatim>\<open>choice["text"]\<close>, which raises \<^verbatim>\<open>KeyError\<close>.
\<close>

theorem default_client_filtering_key_error:
  "map_option fst (call three_choice_env 0 ''What is this?'' None True False [] fresh_world)
     = Some (Inl (KeyError ''text''))
   \<and> select_choices True three_choice_response
     = Inr [chat_choice ''stop'' ''a cat'', chat_choice ''stop'' ''a dog'']"
  by code_simp

section \<open>Sorting by mean log-probability\<close>














text \<open>
  On the sample, the choice of mean \<^verbatim>\<open>-0.125\<close> comes before the choice of mean
  \<^verbatim>\<open>-1.0\<close>; and a text that is no string does not matter while the scores differ.
\<close>

lemma sorted_sample:
  "completions caching_env (default_client 0) True True [(''n'', PInt 2)] scored_response
     = Inr [PStr ''a cat'', PStr ''unsure'']"
  by code_simp

lemma sorted_none_text:
  "sorted_completions [(Finite (- 1), PNone), (Finite (- 1 / 8), PStr ''a cat'')]
     = Inr [PStr ''a cat'', PNone]"
  by code_simp


section \<open>Failures of the scoring loop\<close>

lemma subscript_PNone: "subscript PNone k = Inl TypeError"
  by (simp add: subscript_def)

lemma score_choice_none:
  "subscript c ''logprobs'' = Inr PNone \<Longrightarrow> score_choice E inst c = Inl TypeError"
  by (simp add: score_choice_def subscript_PNone)

lemma score_choice_empty:
  "subscript c ''logprobs'' = Inr lp \<Longrightarrow> subscript lp ''tokens'' = Inr (PList toks) \<Longrightarrow>
   subscript lp ''token_logprobs'' = Inr (PList []) \<Longrightarrow>
   score_choice E inst c = Inl ZeroDivisionError"
  by (simp add: score_choice_def as_list_def avglog_def py_sum_def)

lemma completions_scoring_fails:
  assumes "select_choices True response = Inr choices" and "n_gt_1 kw = Inr True"
    and "c \<in> set choices" and "score_choice E inst c = Inl e"
  shows "\<exists>e'. completions E inst True True kw response = Inl e'"
proof -
  from traverse_fails [of c choices "score_choice E inst" e, OF assms(3,4)]
  obtain e' where "traverse (score_choice E inst) choices = Inl e'" ..
  then show ?thesis
    using assms(1,2) by (simp add: completions_def split: sum.splits)
qed

text \<open>
  C7, as the code has it. The module has no \<^verbatim>\<open>InvalidState\<close>. A call that asks for
  sorting raises \<^verbatim>\<open>AssertionError\<close> at line 181. In the code behind the assertion, a
  choice without the key \<^verbatim>\<open>"logprobs"\<close> raises \<^verbatim>\<open>KeyError\<close>, one whose
  \<^verbatim>\<open>"logprobs"\<close> is \<^verbatim>\<open>None\<close> raises \<^verbatim>\<open>TypeError\<close>, and one whose list of
  log-probabilities is empty raises \<^verbatim>\<open>ZeroDivisionError\<close>: the division by zero is
  made. Whenever the scoring of a selected choice raises, no list of completions is
  returned.
\<close>

theorem scoring_errors:
  assumes "select_choices True response = Inr choices" and "n_gt_1 kw = Inr True"
    and "c \<in> set choices"
  shows "call E self prompt img only_completed True kw w = Some (Inl AssertionError, w)
       \<and> (\<forall>e. subscript c ''logprobs'' = Inl e \<longrightarrow> score_choice E inst c = Inl e)
       \<and> (subscript c ''logprobs'' = Inr PNone \<longrightarrow> score_choice E inst c = Inl TypeError)
       \<and> (\<forall>lp toks. subscript c ''logprobs'' = Inr lp
             \<and> subscript lp ''tokens'' = Inr (PList toks)
             \<and> subscript lp ''token_logprobs'' = Inr (PList [])
             \<longrightarrow> score_choice E inst c = Inl ZeroDivisionError)
       \<and> (\<forall>e. score_choice E inst c = Inl e
             \<longrightarrow> (\<exists>e'. completions E inst True True kw response = Inl e'))"
proof (intro conjI allI impI)
  show "call E self prompt img only_completed True kw w = Some (Inl AssertionError, w)"
    by (simp add: call_def)
next
  fix e assume "subscript c ''logprobs'' = Inl e"
  then show "score_choice E inst c = Inl e" by (simp add: score_choice_def)
next
  assume "subscript c ''logprobs'' = Inr PNone"
  then show "score_choice E inst c = Inl TypeError" by (rule score_choice_none)
next
  fix lp toks
  assume "subscript c ''logprobs'' = Inr lp \<and> subscript lp ''tokens'' = Inr (PList toks)
            \<and> subscript lp ''token_logprobs'' = Inr (PList [])"
  then show "score_choice E inst c = Inl ZeroDivisionError"
    using score_choice_empty [of c lp toks E inst] by simp
next
  fix e assume "score_choice E inst c = Inl e"
  then show "\<exists>e'. completions E inst True True kw response = Inl e'"
    by (rule completions_scoring_fails [OF assms])
qed

theorem scoring_errors_witness:
  "score_choice caching_env (default_client 0) (legacy_choice ''a cat'' [] []) = Inl ZeroDivisionError
   \<and> (\<exists>e'. completions caching_env (default_client 0) True True [(''n'', PInt 2)] empty_logprobs_response
              = Inl e')"
proof -
  let ?c = "legacy_choice ''a cat'' [] []"
  have 1: "select_choices True empty_logprobs_response = Inr [?c]" by code_simp
  have 2: "n_gt_1 [(''n'', PInt 2)] = Inr True" by code_simp
  have 3: "?c \<in> set [?c]" by simp
  have 4: "subscript ?c ''logprobs'' = Inr (logprobs_of ?c)
         \<and> subscript (logprobs_of ?c) ''tokens'' = Inr (PList [])
         \<and> subscript (logprobs_of ?c) ''token_logprobs'' = Inr (PList [])"
    by code_simp
  note t = scoring_errors [OF 1 2 3, of caching_env 0 "''What is this?''" None True fresh_world
        "default_client 0"]
  from t have z: "\<forall>lp toks. subscript ?c ''logprobs'' = Inr lp
             \<and> subscript lp ''tokens'' = Inr (PList toks)
             \<and> subscript lp ''token_logprobs'' = Inr (PList [])
             \<longrightarrow> score_choice caching_env (default_client 0) ?c = Inl ZeroDivisionError"
    by (elim conjE)
  from t have f: "\<forall>e. score_choice caching_env (default_client 0) ?c = Inl e
             \<longrightarrow> (\<exists>e'. completions caching_env (default_client 0) True True [(''n'', PInt 2)]
                          empty_logprobs_response = Inl e')"
    by (elim conjE)
  have s: "score_choice caching_env (default_client 0) ?c = Inl ZeroDivisionError"
    using z 4 by (elim allE [of _ "logprobs_of ?c"] allE [of _ "[]"] impE)
  show ?thesis using s f by (elim allE [of _ ZeroDivisionError] impE conjI)
qed

text \<open>
  C7 as stated fails: the call raises \<^verbatim>\<open>AssertionError\<close> before it reads any choice,
  and behind the assertion an empty list of log-probabilities divides by zero and
  absent log-probabilities raise \<^verbatim>\<open>TypeError\<close>.
\<close>

theorem no_invalid_state_counterexample:
  "call empty_logprobs_env 0 ''What is this?'' None True True [(''n'', PInt 2)] fresh_world
     = Some (Inl AssertionError, fresh_world)
   \<and> completions caching_env (default_client 0) True True [(''n'', PInt 2)] empty_logprobs_response
     = Inl ZeroDivisionError
   \<and> completions caching_env (default_client 0) True True [(''n'', PInt 2)] absent_logprobs_response
     = Inl TypeError"
proof (intro conjI)
  show "call empty_logprobs_env 0 ''What is this?'' None True True [(''n'', PInt 2)] fresh_world
     = Some (Inl AssertionError, fresh_world)"
    by (simp add: call_def)
next
  show "completions caching_env (default_client 0) True True [(''n'', PInt 2)]
                   empty_logprobs_response = Inl ZeroDivisionError"
    by code_simp
next
  show "completions caching_env (default_client 0) True True [(''n'', PInt 2)]
                   absent_logprobs_response = Inl TypeError"
    by code_simp
qed

end
